theory Spec2Isabelle
  imports Main "HOL-Library.AList"
begin

section \<open>Tokens\<close>

text \<open>
  The token types are the ones \<^verbatim>\<open>src/parser/kdl.js\<close> lists in its lexer table
  (\<^verbatim>\<open>tokens.modes\<close>, lines 10-61), together with \<^verbatim>\<open>EOF\<close> (line 68) and
  \<^verbatim>\<open>Unknown\<close> (line 328). Their patterns live in \<^verbatim>\<open>tokens.js\<close>, which
  is outside the sources; the grammar only looks at the type of a token and at its image.
  A token of type \<open>BlockComment\<close> comments out the node, entry or children block
  behind it; a multi-line comment is lexed into the tokens of the
  \<^verbatim>\<open>multilineComment\<close> mode.
\<close>

datatype tokenType =
    WhiteSpace | BOM | NewLine | BlockComment | LineComment | OpenMultiLineComment
  | Boolean | Null | FloatKeyword | MultiLineRawString | RawString | Integer | Float
  | SemiColon | Equals | LeftBrace | RightBrace | LeftParenthesis | RightParenthesis
  | EscLine | MultiLineOpenQuote | OpenQuote | Identifier
  | CloseMultiLineComment | MultiLineCommentContent
  | Unicode | Escape | UnicodeEscape | WhiteSpaceEscape | CloseQuote
  | MultiLineCloseQuote | MultiLineSingleQuote
  | EOF | Unknown

text \<open>
  A token instance as the lexer library's \<^verbatim>\<open>createTokenInstance\<close> builds it
  (line 327): type, image and the six positions. A position is \<open>None\<close> where the
  library stores \<^verbatim>\<open>NaN\<close> (the end-of-input sentinel).
\<close>

record token =
  tokenType :: tokenType
  image' :: string
  startOffset :: "nat option"
  endOffset :: "nat option"
  startLine :: "nat option"
  endLine :: "nat option"
  startColumn :: "nat option"
  endColumn :: "nat option"

definition createTokenInstance ::
  "tokenType \<Rightarrow> string \<Rightarrow> nat option \<Rightarrow> nat option \<Rightarrow> nat option \<Rightarrow> nat option
     \<Rightarrow> nat option \<Rightarrow> nat option \<Rightarrow> token" where
  "createTokenInstance ty img so eo sl el sc ec =
     \<lparr>tokenType = ty, image' = img, startOffset = so, endOffset = eo,
      startLine = sl, endLine = el, startColumn = sc, endColumn = ec\<rparr>"

definition END_OF_FILE :: token where
  "END_OF_FILE = createTokenInstance EOF [] None None None None None None"

section \<open>Document model\<close>

text \<open>
  A value is a string, a number, a boolean or null. A float keeps its literal text
  (floating point arithmetic is not part of the model).
\<close>

datatype Value =
    StringValue string
  | IntegerValue int
  | FloatValue string
  | BooleanValue bool
  | NullValue

text \<open>
  The two JavaScript objects that rule \<^verbatim>\<open>node\<close> uses as dictionaries,
  \<^verbatim>\<open>node.properties\<close> and \<^verbatim>\<open>node.tags.properties\<close>, start as the literal
  \<^verbatim>\<open>{}\<close> (lines 126, 131) and are only ever changed by the assignment
  \<^verbatim>\<open>obj[key] = value\<close> (lines 157-158). An object is the association list of its own
  properties and its prototype. \<open>plain_object ps\<close> is the object with the own properties
  \<open>ps\<close> whose prototype is \<^verbatim>\<open>Object.prototype\<close>, so \<open>plain_object []\<close> is
  \<^verbatim>\<open>{}\<close>.

  \<open>assign is_null key v obj\<close> is \<^verbatim>\<open>obj[key] = v\<close> for a value that is a primitive or
  \<^verbatim>\<open>null\<close> (\<open>is_null\<close> says which). For every key but one it sets the own property:
  the value of a key that is present is replaced in place, a new key is appended. The
  key \<^verbatim>\<open>__proto__\<close> is an accessor that a plain object inherits from
  \<^verbatim>\<open>Object.prototype\<close>: assigning \<^verbatim>\<open>null\<close> to it sets the prototype to
  \<^verbatim>\<open>null\<close>, assigning any other primitive does nothing, and neither creates an own
  property. An object whose prototype is \<^verbatim>\<open>null\<close> no longer inherits the accessor, so
  there \<^verbatim>\<open>__proto__\<close> is a key like any other. Of the values of the model,
  \<open>NullValue\<close> is \<^verbatim>\<open>null\<close> and every other one is a primitive; a tag is a string
  or \<^verbatim>\<open>undefined\<close>, never \<^verbatim>\<open>null\<close>.
\<close>

datatype prototype = ObjectPrototype | NullPrototype

record 'v object =
  own :: "(string \<times> 'v) list"
  prototype :: prototype

definition plain_object :: "(string \<times> 'v) list \<Rightarrow> 'v object" where
  "plain_object ps = \<lparr>own = ps, prototype = ObjectPrototype\<rparr>"

definition assign :: "('v \<Rightarrow> bool) \<Rightarrow> string \<Rightarrow> 'v \<Rightarrow> 'v object \<Rightarrow> 'v object" where
  "assign is_null key v obj =
     (if key = ''__proto__'' \<and> prototype obj = ObjectPrototype then
        (if is_null v then obj\<lparr>prototype := NullPrototype\<rparr> else obj)
      else obj\<lparr>own := AList.update key v (own obj)\<rparr>)"

text \<open>
  The node object of lines 124-134. A tag that is \<^verbatim>\<open>undefined\<close> is \<open>None\<close>.
\<close>

record Tags =
  tags_name :: "string option"
  tags_properties :: "string option object"
  tags_values :: "string option list"

datatype Node = Node
  (name: string)
  (properties: "Value object")
  (values': "Value list")
  (children: "Node list")
  (tags: Tags)

type_synonym Document = "Node list"

section \<open>The grammar engine\<close>

text \<open>
  The exceptions of the parsing library. \<^verbatim>\<open>transformLexerError\<close> (line 325) builds a
  \<open>MismatchedTokenException\<close> from a message, a token and the previous token. For the
  exceptions the engine raises itself the model keeps the offending token only: the
  message text and the previous token are the library's business.
\<close>

datatype exception =
    MismatchedTokenException string token "token option"
  | NoViableAltException token
  | EarlyExitException token

text \<open>
  A rule takes the tokens not yet consumed and either raises (\<open>Inl\<close>) or returns its
  value and the remaining tokens. Recovery is off, so the first exception ends the
  whole parse.
\<close>

type_synonym 'a result = "exception + ('a \<times> token list)"

text \<open>\<^verbatim>\<open>this.LA(1)\<close>: the next token, the end-of-input sentinel past the end.\<close>

definition LA :: "token list \<Rightarrow> token" where
  "LA ts = (case ts of [] \<Rightarrow> END_OF_FILE | t # _ \<Rightarrow> t)"

definition LA1 :: "token list \<Rightarrow> tokenType" where
  "LA1 ts = tokenType (LA ts)"

text \<open>
  \<^verbatim>\<open>this.CONSUME(T)\<close>: the next token if it has type \<open>T\<close>, a mismatched-token
  exception otherwise. Consuming the end-of-input sentinel leaves the (empty) input as
  it is, so it can be consumed again.
\<close>

definition CONSUME :: "tokenType \<Rightarrow> token list \<Rightarrow> token result" where
  "CONSUME ty ts =
     (if LA1 ts = ty then Inr (LA ts, drop 1 ts)
      else Inl (MismatchedTokenException [] (LA ts) None))"

lemma LA1_Nil: "LA1 [] = EOF"
  by (simp add: LA1_def LA_def END_OF_FILE_def createTokenInstance_def)

lemma LA1_Cons: "LA1 (t # ts) = tokenType t"
  by (simp add: LA1_def LA_def)

lemma CONSUME_length_le: "CONSUME ty ts = Inr (t, ts') \<Longrightarrow> length ts' \<le> length ts"
  by (cases ts) (auto simp: CONSUME_def split: if_splits)

lemma CONSUME_length:
  "CONSUME ty ts = Inr (t, ts') \<Longrightarrow> ty \<noteq> EOF \<Longrightarrow> length ts' < length ts"
  by (cases ts) (auto simp: CONSUME_def LA1_Nil split: if_splits)

section \<open>Rules of the base parser\<close>

text \<open>
  \<^verbatim>\<open>KdlParser\<close> extends \<^verbatim>\<open>BaseParser\<close> (\<^verbatim>\<open>base.js\<close>), which is outside the
  sources. The grammar of \<^verbatim>\<open>kdl.js\<close> calls six of its rules: \<^verbatim>\<open>nodeSpace\<close>,
  \<^verbatim>\<open>lineComment\<close>, \<^verbatim>\<open>string\<close>, \<^verbatim>\<open>tag\<close>, \<^verbatim>\<open>nonStringValue\<close> and
  \<^verbatim>\<open>value\<close>. They are modelled below from what the specification says about them;
  each rule consumes at least one token when it succeeds. The set \<open>FIRST_r\<close> of a rule
  \<open>r\<close> holds the token types \<open>r\<close> can start with: the engine computes these sets
  from the grammar and uses them for every one-token lookahead decision.
\<close>

text \<open>
  Modelled from the spec: the body of a multi-line comment (missing: the comment rule of
  \<^verbatim>\<open>base.js\<close>). Section 4.1: a comment opener inside a comment raises the nesting
  depth, a closer lowers it, and the comment ends at depth zero. The token types are the
  ones of the \<^verbatim>\<open>multilineComment\<close> lexer mode (lines 38-42).
\<close>

fun multilineComment_body :: "nat \<Rightarrow> token list \<Rightarrow> unit result" where
  "multilineComment_body depth [] = Inl (MismatchedTokenException [] END_OF_FILE None)"
| "multilineComment_body depth (t # ts) =
     (if tokenType t = OpenMultiLineComment then multilineComment_body (Suc depth) ts
      else if tokenType t = MultiLineCommentContent then multilineComment_body depth ts
      else if tokenType t = CloseMultiLineComment then
        (case depth of 0 \<Rightarrow> Inr ((), ts) | Suc d \<Rightarrow> multilineComment_body d ts)
      else Inl (NoViableAltException t))"

lemma multilineComment_body_length:
  "multilineComment_body d ts = Inr (u, ts') \<Longrightarrow> length ts' < length ts"
  by (induction d ts rule: multilineComment_body.induct) (auto split: if_splits nat.splits)

text \<open>
  Modelled from the spec: \<^verbatim>\<open>nodeSpace\<close> (missing: \<^verbatim>\<open>base.js\<close>), the space between
  the tokens of one node: one or more inline whitespace runs or multi-line comments. The
  line continuation token \<^verbatim>\<open>EscLine\<close> is not described by the specification and is
  not part of the model. The rule returns a true value, which \<^verbatim>\<open>kdl.js\<close> stores in
  \<^verbatim>\<open>hasSpace\<close> (lines 146, 221). A repetition of the engine stops when an iteration
  consumed nothing; the test \<open>length ts1 < length ts\<close> is that check.
\<close>

definition FIRST_nodeSpace :: "tokenType set" where
  "FIRST_nodeSpace = {WhiteSpace, OpenMultiLineComment}"

function nodeSpace_many :: "token list \<Rightarrow> unit result" where
  "nodeSpace_many ts =
     (if LA1 ts = WhiteSpace then
        (case CONSUME WhiteSpace ts of Inl e \<Rightarrow> Inl e
         | Inr (_, ts1) \<Rightarrow> if length ts1 < length ts then nodeSpace_many ts1 else Inr ((), ts1))
      else if LA1 ts = OpenMultiLineComment then
        (case multilineComment_body 0 (drop 1 ts) of Inl e \<Rightarrow> Inl e
         | Inr (_, ts1) \<Rightarrow> if length ts1 < length ts then nodeSpace_many ts1 else Inr ((), ts1))
      else Inr ((), ts))"
  by pat_completeness auto
termination
  by (relation "measure length") auto

declare nodeSpace_many.simps [simp del]

definition nodeSpace :: "token list \<Rightarrow> bool result" where
  "nodeSpace ts =
     (if LA1 ts \<in> FIRST_nodeSpace then
        (case nodeSpace_many ts of Inl e \<Rightarrow> Inl e | Inr (_, ts1) \<Rightarrow> Inr (True, ts1))
      else Inl (EarlyExitException (LA ts)))"

text \<open>
  \<^verbatim>\<open>this.OPTION(() => this.SUBRULE(this.nodeSpace))\<close>, which \<^verbatim>\<open>kdl.js\<close> uses
  throughout: the rule's value when the next token starts a \<^verbatim>\<open>nodeSpace\<close>, and
  \<^verbatim>\<open>undefined\<close> (false as a condition) otherwise.
\<close>

definition OPTION_nodeSpace :: "token list \<Rightarrow> bool result" where
  "OPTION_nodeSpace ts = (if LA1 ts \<in> FIRST_nodeSpace then nodeSpace ts else Inr (False, ts))"

text \<open>
  Modelled from the spec: \<^verbatim>\<open>lineComment\<close> (missing: \<^verbatim>\<open>base.js\<close>), a line comment
  token.
\<close>

definition FIRST_lineComment :: "tokenType set" where
  "FIRST_lineComment = {LineComment}"

definition lineComment :: "token list \<Rightarrow> unit result" where
  "lineComment ts =
     (case CONSUME LineComment ts of Inl e \<Rightarrow> Inl e | Inr (_, ts1) \<Rightarrow> Inr ((), ts1))"

text \<open>
  Modelled from the spec: \<^verbatim>\<open>string\<close> (missing: \<^verbatim>\<open>base.js\<close>), a bare
  identifier, a raw string, or a quoted string: the opening quote, the tokens of the
  string body and the closing quote. The body token types are the ones of the
  \<^verbatim>\<open>string\<close> and \<^verbatim>\<open>multilineString\<close> lexer modes (lines 43-59). The
  specification gives no table of escapes, so the model keeps the literal text: the
  result is the image of the identifier or raw string, or the images of the body tokens
  put together.
\<close>

definition FIRST_string :: "tokenType set" where
  "FIRST_string = {Identifier, RawString, MultiLineRawString, OpenQuote, MultiLineOpenQuote}"

fun string_body :: "tokenType set \<Rightarrow> token list \<Rightarrow> string \<times> token list" where
  "string_body B [] = ([], [])"
| "string_body B (t # ts) =
     (if tokenType t \<in> B then (case string_body B ts of (s, ts1) \<Rightarrow> (image' t @ s, ts1))
      else ([], t # ts))"

definition string :: "token list \<Rightarrow> string result" where
  "string ts =
     (if LA1 ts = Identifier \<or> LA1 ts = RawString \<or> LA1 ts = MultiLineRawString then
        Inr (image' (LA ts), drop 1 ts)
      else if LA1 ts = OpenQuote then
        (case string_body {Unicode, Escape, UnicodeEscape, WhiteSpaceEscape} (drop 1 ts) of
           (s, ts1) \<Rightarrow>
             (case CONSUME CloseQuote ts1 of Inl e \<Rightarrow> Inl e | Inr (_, ts2) \<Rightarrow> Inr (s, ts2)))
      else if LA1 ts = MultiLineOpenQuote then
        (case string_body {MultiLineSingleQuote, NewLine, WhiteSpace, Unicode, Escape,
                           UnicodeEscape, WhiteSpaceEscape} (drop 1 ts) of
           (s, ts1) \<Rightarrow>
             (case CONSUME MultiLineCloseQuote ts1 of Inl e \<Rightarrow> Inl e
              | Inr (_, ts2) \<Rightarrow> Inr (s, ts2)))
      else Inl (NoViableAltException (LA ts)))"

text \<open>
  Modelled from the spec: \<^verbatim>\<open>tag\<close> (missing: \<^verbatim>\<open>base.js\<close>). Section 4.2: an
  opening parenthesis, optional space, an identifier or string, optional space, a closing
  parenthesis; the result is the annotation text.
\<close>

definition FIRST_tag :: "tokenType set" where
  "FIRST_tag = {LeftParenthesis}"

definition tag :: "token list \<Rightarrow> string result" where
  "tag ts =
     (case CONSUME LeftParenthesis ts of Inl e \<Rightarrow> Inl e
      | Inr (_, ts1) \<Rightarrow>
     (case OPTION_nodeSpace ts1 of Inl e \<Rightarrow> Inl e
      | Inr (_, ts2) \<Rightarrow>
     (case string ts2 of Inl e \<Rightarrow> Inl e
      | Inr (s, ts3) \<Rightarrow>
     (case OPTION_nodeSpace ts3 of Inl e \<Rightarrow> Inl e
      | Inr (_, ts4) \<Rightarrow>
     (case CONSUME RightParenthesis ts4 of Inl e \<Rightarrow> Inl e
      | Inr (_, ts5) \<Rightarrow> Inr (s, ts5))))))"

text \<open>
  Modelled from the spec: the value of an integer literal (missing: \<^verbatim>\<open>base.js\<close>).
  Section 4.1: decimal, or one of the prefixes \<^verbatim>\<open>0x\<close>, \<^verbatim>\<open>0o\<close>, \<^verbatim>\<open>0b\<close>,
  with \<^verbatim>\<open>_\<close> as a digit separator; a sign may come first.
\<close>

definition digit_value :: "char \<Rightarrow> nat" where
  "digit_value c =
     (let n = of_char c in
      if 48 \<le> n \<and> n \<le> 57 then n - 48
      else if 97 \<le> n \<and> n \<le> 102 then n - 87
      else if 65 \<le> n \<and> n \<le> 70 then n - 55
      else 0)"

definition digits_value :: "nat \<Rightarrow> string \<Rightarrow> nat" where
  "digits_value radix s =
     foldl (\<lambda>acc c. if c = CHR ''_'' then acc else acc * radix + digit_value c) 0 s"

definition unsigned_value :: "string \<Rightarrow> nat" where
  "unsigned_value s =
     (if take 2 s = ''0x'' then digits_value 16 (drop 2 s)
      else if take 2 s = ''0o'' then digits_value 8 (drop 2 s)
      else if take 2 s = ''0b'' then digits_value 2 (drop 2 s)
      else digits_value 10 s)"

definition parseInteger :: "string \<Rightarrow> int" where
  "parseInteger s =
     (if take 1 s = ''-'' then - int (unsigned_value (drop 1 s))
      else if take 1 s = ''+'' then int (unsigned_value (drop 1 s))
      else int (unsigned_value s))"

text \<open>
  Modelled from the spec: \<^verbatim>\<open>nonStringValue\<close> and \<^verbatim>\<open>value\<close> (missing:
  \<^verbatim>\<open>base.js\<close>). Section 4.2: a non-string literal is a number, a boolean or null;
  a value is a string or a non-string literal. A float, and a float keyword, keeps its
  literal text.
\<close>

definition FIRST_nonStringValue :: "tokenType set" where
  "FIRST_nonStringValue = {Boolean, Null, Integer, Float, FloatKeyword}"

definition nonStringValue :: "token list \<Rightarrow> Value result" where
  "nonStringValue ts =
     (if LA1 ts = Boolean then
        Inr (BooleanValue (image' (LA ts) = ''true'' \<or> image' (LA ts) = ''#true''), drop 1 ts)
      else if LA1 ts = Null then Inr (NullValue, drop 1 ts)
      else if LA1 ts = Integer then
        Inr (IntegerValue (parseInteger (image' (LA ts))), drop 1 ts)
      else if LA1 ts = Float \<or> LA1 ts = FloatKeyword then
        Inr (FloatValue (image' (LA ts)), drop 1 ts)
      else Inl (NoViableAltException (LA ts)))"

definition value' :: "token list \<Rightarrow> Value result" where
  "value' ts =
     (if LA1 ts \<in> FIRST_string then
        (case string ts of Inl e \<Rightarrow> Inl e | Inr (s, ts1) \<Rightarrow> Inr (StringValue s, ts1))
      else if LA1 ts \<in> FIRST_nonStringValue then nonStringValue ts
      else Inl (NoViableAltException (LA ts)))"

text \<open>A rule that succeeds never gives back more input than it was given.\<close>

lemma nodeSpace_many_length: "nodeSpace_many ts = Inr (u, ts') \<Longrightarrow> length ts' \<le> length ts"
proof (induction ts rule: nodeSpace_many.induct)
  case (1 ts)
  from "1.prems" show ?case
    apply (subst (asm) nodeSpace_many.simps)
    apply (simp split: if_splits sum.splits prod.splits)
    using "1.IH" CONSUME_length_le multilineComment_body_length
    apply (fastforce)+
    done
qed

lemma nodeSpace_length: "nodeSpace ts = Inr (b, ts') \<Longrightarrow> length ts' \<le> length ts"
  by (auto simp: nodeSpace_def split: if_splits sum.splits dest: nodeSpace_many_length)

lemma OPTION_nodeSpace_length:
  "OPTION_nodeSpace ts = Inr (b, ts') \<Longrightarrow> length ts' \<le> length ts"
  by (auto simp: OPTION_nodeSpace_def split: if_splits dest: nodeSpace_length)

lemma lineComment_length: "lineComment ts = Inr (u, ts') \<Longrightarrow> length ts' \<le> length ts"
  by (auto simp: lineComment_def split: sum.splits dest: CONSUME_length_le)

lemma string_body_length: "string_body B ts = (s, ts') \<Longrightarrow> length ts' \<le> length ts"
  by (induction ts arbitrary: s ts') (auto split: if_splits prod.splits)

lemma string_length: "string ts = Inr (s, ts') \<Longrightarrow> length ts' < length ts"
  by (cases ts)
     (auto simp: string_def LA1_Nil LA1_Cons split: if_splits sum.splits prod.splits
      dest!: string_body_length CONSUME_length_le)

lemma tag_length: "tag ts = Inr (s, ts') \<Longrightarrow> length ts' < length ts"
  by (auto simp: tag_def split: sum.splits
      dest!: CONSUME_length_le OPTION_nodeSpace_length string_length)

lemma nonStringValue_length: "nonStringValue ts = Inr (v, ts') \<Longrightarrow> length ts' < length ts"
  by (cases ts) (auto simp: nonStringValue_def LA1_Nil LA1_Cons split: if_splits)

lemma value'_length: "value' ts = Inr (v, ts') \<Longrightarrow> length ts' < length ts"
  by (auto simp: value'_def split: if_splits sum.splits dest!: string_length nonStringValue_length)

section \<open>The grammar of kdl.js\<close>

text \<open>
  Every choice of this grammar is decided by the type of the next token: the alternatives
  of each \<^verbatim>\<open>OR\<close> start with different token types, and so do the body of each
  \<^verbatim>\<open>OPTION\<close>, \<^verbatim>\<open>MANY\<close> and \<^verbatim>\<open>AT_LEAST_ONE\<close> and what follows it. An
  \<^verbatim>\<open>OR\<close> takes the first alternative whose gate holds and whose first token matches,
  and raises a no-viable-alternative exception when there is none.
\<close>

text \<open>\<^verbatim>\<open>nodeEndTokens\<close>, lines 63-69.\<close>

definition nodeEndTokens :: "tokenType set" where
  "nodeEndTokens = {RightBrace, LineComment, NewLine, SemiColon, EOF}"

text \<open>
  Rule \<^verbatim>\<open>lineSpace\<close>, lines 280-286: \<open>lineSpace_alt\<close> is the \<^verbatim>\<open>OR\<close>,
  \<open>lineSpace_many\<close> the repetition and \<open>lineSpace\<close> the \<^verbatim>\<open>AT_LEAST_ONE\<close>,
  which raises an early-exit exception when not even one iteration can start.
\<close>

definition FIRST_lineSpace :: "tokenType set" where
  "FIRST_lineSpace = FIRST_nodeSpace \<union> {NewLine} \<union> FIRST_lineComment"

definition lineSpace_alt :: "token list \<Rightarrow> unit result" where
  "lineSpace_alt ts =
     (if LA1 ts \<in> FIRST_nodeSpace then
        (case nodeSpace ts of Inl e \<Rightarrow> Inl e | Inr (_, ts1) \<Rightarrow> Inr ((), ts1))
      else if LA1 ts = NewLine then
        (case CONSUME NewLine ts of Inl e \<Rightarrow> Inl e | Inr (_, ts1) \<Rightarrow> Inr ((), ts1))
      else if LA1 ts \<in> FIRST_lineComment then lineComment ts
      else Inl (NoViableAltException (LA ts)))"

function lineSpace_many :: "token list \<Rightarrow> unit result" where
  "lineSpace_many ts =
     (if LA1 ts \<in> FIRST_lineSpace then
        (case lineSpace_alt ts of Inl e \<Rightarrow> Inl e
         | Inr (_, ts1) \<Rightarrow> if length ts1 < length ts then lineSpace_many ts1 else Inr ((), ts1))
      else Inr ((), ts))"
  by pat_completeness auto
termination
  by (relation "measure length") auto

declare lineSpace_many.simps [simp del]

definition lineSpace :: "token list \<Rightarrow> unit result" where
  "lineSpace ts =
     (if LA1 ts \<in> FIRST_lineSpace then lineSpace_many ts
      else Inl (EarlyExitException (LA ts)))"

text \<open>\<^verbatim>\<open>this.OPTION(() => this.SUBRULE(this.lineSpace))\<close>, lines 106 and 178.\<close>

definition OPTION_lineSpace :: "token list \<Rightarrow> unit result" where
  "OPTION_lineSpace ts = (if LA1 ts \<in> FIRST_lineSpace then lineSpace ts else Inr ((), ts))"

text \<open>Rule \<^verbatim>\<open>nodeTerminator\<close>, lines 293-300.\<close>

definition nodeTerminator :: "token list \<Rightarrow> unit result" where
  "nodeTerminator ts =
     (if LA1 ts \<in> FIRST_lineComment then lineComment ts
      else if LA1 ts = NewLine then
        (case CONSUME NewLine ts of Inl e \<Rightarrow> Inl e | Inr (_, ts1) \<Rightarrow> Inr ((), ts1))
      else if LA1 ts = SemiColon then
        (case CONSUME SemiColon ts of Inl e \<Rightarrow> Inl e | Inr (_, ts1) \<Rightarrow> Inr ((), ts1))
      else if LA1 ts = EOF then
        (case CONSUME EOF ts of Inl e \<Rightarrow> Inl e | Inr (_, ts1) \<Rightarrow> Inr ((), ts1))
      else Inl (NoViableAltException (LA ts)))"

text \<open>
  Rule \<^verbatim>\<open>propertyOrArgument\<close>, lines 214-260. Its result is the array
  \<^verbatim>\<open>[name, value, tag, hasSpaceAfter]\<close>; an \<^verbatim>\<open>undefined\<close> name or tag is
  \<open>None\<close>. \<open>OPTION_tag\<close> is the \<^verbatim>\<open>OPTION\<close> of a tag followed by optional space
  (lines 246-250, and lines 136-139 of rule \<^verbatim>\<open>node\<close>).
\<close>

type_synonym parts = "string option \<times> Value \<times> string option \<times> bool"

definition FIRST_propertyOrArgument :: "tokenType set" where
  "FIRST_propertyOrArgument = FIRST_tag \<union> FIRST_nonStringValue \<union> FIRST_string"

definition OPTION_tag :: "token list \<Rightarrow> string option result" where
  "OPTION_tag ts =
     (if LA1 ts \<in> FIRST_tag then
        (case tag ts of Inl e \<Rightarrow> Inl e
         | Inr (tg, ts1) \<Rightarrow>
        (case OPTION_nodeSpace ts1 of Inl e \<Rightarrow> Inl e
         | Inr (_, ts2) \<Rightarrow> Inr (Some tg, ts2)))
      else Inr (None, ts))"

definition propertyOrArgument :: "token list \<Rightarrow> parts result" where
  "propertyOrArgument ts =
     (if LA1 ts \<in> FIRST_tag then
        (case tag ts of Inl e \<Rightarrow> Inl e
         | Inr (tg, ts1) \<Rightarrow>
        (case OPTION_nodeSpace ts1 of Inl e \<Rightarrow> Inl e
         | Inr (_, ts2) \<Rightarrow>
        (case value' ts2 of Inl e \<Rightarrow> Inl e
         | Inr (v, ts3) \<Rightarrow>
        (case OPTION_nodeSpace ts3 of Inl e \<Rightarrow> Inl e
         | Inr (hasSpaceAfter, ts4) \<Rightarrow> Inr ((None, v, Some tg, hasSpaceAfter), ts4)))))
      else if LA1 ts \<in> FIRST_nonStringValue then
        (case nonStringValue ts of Inl e \<Rightarrow> Inl e
         | Inr (v, ts1) \<Rightarrow>
        (case OPTION_nodeSpace ts1 of Inl e \<Rightarrow> Inl e
         | Inr (hasSpaceAfter, ts2) \<Rightarrow> Inr ((None, v, None, hasSpaceAfter), ts2)))
      else if LA1 ts \<in> FIRST_string then
        (case string ts of Inl e \<Rightarrow> Inl e
         | Inr (s, ts1) \<Rightarrow>
        (case OPTION_nodeSpace ts1 of Inl e \<Rightarrow> Inl e
         | Inr (hasSpaceAfter, ts2) \<Rightarrow>
           if LA1 ts2 = Equals then
             (case CONSUME Equals ts2 of Inl e \<Rightarrow> Inl e
              | Inr (_, ts3) \<Rightarrow>
             (case OPTION_nodeSpace ts3 of Inl e \<Rightarrow> Inl e
              | Inr (_, ts4) \<Rightarrow>
             (case OPTION_tag ts4 of Inl e \<Rightarrow> Inl e
              | Inr (tg, ts5) \<Rightarrow>
             (case value' ts5 of Inl e \<Rightarrow> Inl e
              | Inr (v, ts6) \<Rightarrow>
             (case OPTION_nodeSpace ts6 of Inl e \<Rightarrow> Inl e
              | Inr (hasSpaceAfter', ts7) \<Rightarrow>
                  Inr ((Some s, v, tg, hasSpaceAfter'), ts7))))))
           else Inr ((None, StringValue s, None, hasSpaceAfter), ts2)))
      else Inl (NoViableAltException (LA ts)))"

text \<open>
  Rule \<^verbatim>\<open>node\<close>, lines 123-206. \<open>node_locals\<close> holds the node under construction and
  the three local variables of the rule. \<open>new_node\<close> is the object of lines 124-134 with
  its name and name tag set (lines 137, 141); \<open>add_entry\<close> is lines 156-162;
  \<open>set_children\<close> is the assignment of line 169. \<open>node_head\<close> is the rule up to the
  repetition (lines 136-146).
\<close>

record node_locals =
  the_node :: Node
  entriesEnded :: bool
  childrenEnded :: bool
  hasSpace :: bool

definition new_node :: "string option \<Rightarrow> string \<Rightarrow> Node" where
  "new_node tg nm =
     Node nm (plain_object []) [] []
       \<lparr>tags_name = tg, tags_properties = plain_object [], tags_values = []\<rparr>"

definition add_entry :: "parts \<Rightarrow> Node \<Rightarrow> Node" where
  "add_entry p n =
     (case p of
        (Some k, v, tg, _) \<Rightarrow>
          Node (name n) (assign (\<lambda>v. v = NullValue) k v (properties n)) (values' n)
            (children n)
            ((tags n)\<lparr>tags_properties :=
               assign (\<lambda>tg. False) k tg (tags_properties (tags n))\<rparr>)
      | (None, v, tg, _) \<Rightarrow>
          Node (name n) (properties n) (values' n @ [v]) (children n)
            ((tags n)\<lparr>tags_values := tags_values (tags n) @ [tg]\<rparr>))"

definition set_children :: "Node list \<Rightarrow> Node \<Rightarrow> Node" where
  "set_children cs n = Node (name n) (properties n) (values' n) cs (tags n)"

definition node_head :: "token list \<Rightarrow> node_locals result" where
  "node_head ts =
     (case OPTION_tag ts of Inl e \<Rightarrow> Inl e
      | Inr (tg, ts1) \<Rightarrow>
     (case string ts1 of Inl e \<Rightarrow> Inl e
      | Inr (nm, ts2) \<Rightarrow>
     (case OPTION_nodeSpace ts2 of Inl e \<Rightarrow> Inl e
      | Inr (sp, ts3) \<Rightarrow>
          Inr (\<lparr>the_node = new_node tg nm, entriesEnded = False, childrenEnded = False,
                hasSpace = sp\<rparr>, ts3))))"

definition FIRST_node :: "tokenType set" where
  "FIRST_node = FIRST_tag \<union> FIRST_string"

definition FIRST_node_entry :: "tokenType set" where
  "FIRST_node_entry = FIRST_propertyOrArgument \<union> {LeftBrace} \<union> {BlockComment}"

lemma lineSpace_alt_length: "lineSpace_alt ts = Inr (u, ts') \<Longrightarrow> length ts' \<le> length ts"
  by (auto simp: lineSpace_alt_def split: if_splits sum.splits
      dest: CONSUME_length_le nodeSpace_length lineComment_length)

lemma lineSpace_many_length: "lineSpace_many ts = Inr (u, ts') \<Longrightarrow> length ts' \<le> length ts"
proof (induction ts rule: lineSpace_many.induct)
  case (1 ts)
  from "1.prems" show ?case
    apply (subst (asm) lineSpace_many.simps)
    apply (simp split: if_splits sum.splits prod.splits)
    using "1.IH" lineSpace_alt_length
    apply (fastforce)+
    done
qed

lemma lineSpace_length: "lineSpace ts = Inr (u, ts') \<Longrightarrow> length ts' \<le> length ts"
  by (auto simp: lineSpace_def split: if_splits dest: lineSpace_many_length)

lemma OPTION_lineSpace_length:
  "OPTION_lineSpace ts = Inr (u, ts') \<Longrightarrow> length ts' \<le> length ts"
  by (auto simp: OPTION_lineSpace_def split: if_splits dest: lineSpace_length)

lemma OPTION_tag_length: "OPTION_tag ts = Inr (s, ts') \<Longrightarrow> length ts' \<le> length ts"
  by (auto simp: OPTION_tag_def split: if_splits sum.splits
      dest!: OPTION_nodeSpace_length tag_length)

lemma propertyOrArgument_length:
  "propertyOrArgument ts = Inr (p, ts') \<Longrightarrow> length ts' < length ts"
  by (auto simp: propertyOrArgument_def split: if_splits sum.splits
      dest!: CONSUME_length_le OPTION_nodeSpace_length OPTION_tag_length tag_length string_length
        value'_length nonStringValue_length)

lemma node_head_length: "node_head ts = Inr (st, ts') \<Longrightarrow> length ts' < length ts"
  by (auto simp: node_head_def split: sum.splits
      dest!: OPTION_nodeSpace_length OPTION_tag_length string_length)

lemma nodeTerminator_length:
  "nodeTerminator ts = Inr (u, ts') \<Longrightarrow> length ts' \<le> length ts"
  by (auto simp: nodeTerminator_def split: if_splits sum.splits
      dest!: CONSUME_length_le lineComment_length)

lemma CONSUME_progress:
  "CONSUME ty ts = Inr (t, ts') \<Longrightarrow> ty = BlockComment \<or> ty = LeftBrace \<Longrightarrow>
   length ts' < length ts"
  by (auto dest: CONSUME_length)

text \<open>
  The recursive rules. \<open>nodes\<close> and \<open>nodes_many\<close> are rule \<^verbatim>\<open>nodes\<close> (lines
  99-115) and its \<^verbatim>\<open>MANY\<close>, whose argument \<open>acc\<close> is the array \<^verbatim>\<open>nodes\<close>;
  \<open>node\<close> is rule \<^verbatim>\<open>node\<close> (lines 123-206), \<open>node_many\<close> its \<^verbatim>\<open>MANY\<close> with
  the gate of line 149, and \<open>node_entry\<close> the body of that repetition (lines 151-197);
  \<open>nodeChildren\<close> is lines 268-273. As in \<open>nodeSpace_many\<close>, a repetition goes on
  only after an iteration that consumed a token.
\<close>

function nodes :: "token list \<Rightarrow> Document result"
  and nodes_many :: "Node list \<Rightarrow> token list \<Rightarrow> Node list result"
  and node :: "token list \<Rightarrow> Node result"
  and node_many :: "node_locals \<Rightarrow> token list \<Rightarrow> node_locals result"
  and node_entry :: "node_locals \<Rightarrow> token list \<Rightarrow> node_locals result"
  and nodeChildren :: "token list \<Rightarrow> Node list result"
where
  "nodes ts = nodes_many [] ts"
| "nodes_many acc ts =
     (if LA1 ts = BlockComment then
        (case CONSUME BlockComment ts of Inl e \<Rightarrow> Inl e
         | Inr (_, ts1) \<Rightarrow>
        (case OPTION_lineSpace ts1 of Inl e \<Rightarrow> Inl e
         | Inr (_, ts2) \<Rightarrow>
        (case node ts2 of Inl e \<Rightarrow> Inl e
         | Inr (_, ts3) \<Rightarrow>
             if length ts3 < length ts then nodes_many acc ts3 else Inr (acc, ts3))))
      else if LA1 ts \<in> FIRST_lineSpace then
        (case lineSpace ts of Inl e \<Rightarrow> Inl e
         | Inr (_, ts1) \<Rightarrow>
             if length ts1 < length ts then nodes_many acc ts1 else Inr (acc, ts1))
      else if LA1 ts \<in> FIRST_node then
        (case node ts of Inl e \<Rightarrow> Inl e
         | Inr (n, ts1) \<Rightarrow>
             if length ts1 < length ts then nodes_many (acc @ [n]) ts1
             else Inr (acc @ [n], ts1))
      else Inr (acc, ts))"
| "node ts =
     (case node_head ts of Inl e \<Rightarrow> Inl e
      | Inr (st, ts1) \<Rightarrow>
     (case node_many st ts1 of Inl e \<Rightarrow> Inl e
      | Inr (st', ts2) \<Rightarrow>
          if LA1 ts2 \<noteq> RightBrace then
            (case nodeTerminator ts2 of Inl e \<Rightarrow> Inl e
             | Inr (_, ts3) \<Rightarrow> Inr (the_node st', ts3))
          else Inr (the_node st', ts2)))"
| "node_many st ts =
     (if hasSpace st \<and> LA1 ts \<notin> nodeEndTokens \<and> LA1 ts \<in> FIRST_node_entry then
        (case node_entry st ts of Inl e \<Rightarrow> Inl e
         | Inr (st', ts1) \<Rightarrow>
             if length ts1 < length ts then node_many st' ts1 else Inr (st', ts1))
      else Inr (st, ts))"
| "node_entry st ts =
     (if \<not> entriesEnded st \<and> LA1 ts \<in> FIRST_propertyOrArgument then
        (case propertyOrArgument ts of Inl e \<Rightarrow> Inl e
         | Inr (parts, ts1) \<Rightarrow>
             Inr (st\<lparr>the_node := add_entry parts (the_node st),
                     hasSpace := snd (snd (snd parts))\<rparr>, ts1))
      else if \<not> childrenEnded st \<and> LA1 ts = LeftBrace then
        (case nodeChildren ts of Inl e \<Rightarrow> Inl e
         | Inr (cs, ts1) \<Rightarrow>
        (case OPTION_nodeSpace ts1 of Inl e \<Rightarrow> Inl e
         | Inr (sp, ts2) \<Rightarrow>
             Inr (st\<lparr>the_node := set_children cs (the_node st), entriesEnded := True,
                     childrenEnded := True, hasSpace := sp\<rparr>, ts2)))
      else if LA1 ts = BlockComment then
        (case CONSUME BlockComment ts of Inl e \<Rightarrow> Inl e
         | Inr (_, ts1) \<Rightarrow>
        (case OPTION_lineSpace ts1 of Inl e \<Rightarrow> Inl e
         | Inr (_, ts2) \<Rightarrow>
             if \<not> entriesEnded st \<and> LA1 ts2 \<in> FIRST_propertyOrArgument then
               (case propertyOrArgument ts2 of Inl e \<Rightarrow> Inl e
                | Inr (parts, ts3) \<Rightarrow> Inr (st\<lparr>hasSpace := snd (snd (snd parts))\<rparr>, ts3))
             else if LA1 ts2 = LeftBrace then
               (case nodeChildren ts2 of Inl e \<Rightarrow> Inl e
                | Inr (_, ts3) \<Rightarrow>
               (case OPTION_nodeSpace ts3 of Inl e \<Rightarrow> Inl e
                | Inr (sp, ts4) \<Rightarrow> Inr (st\<lparr>entriesEnded := True, hasSpace := sp\<rparr>, ts4)))
             else Inl (NoViableAltException (LA ts2))))
      else Inl (NoViableAltException (LA ts)))"
| "nodeChildren ts =
     (case CONSUME LeftBrace ts of Inl e \<Rightarrow> Inl e
      | Inr (_, ts1) \<Rightarrow>
     (case nodes ts1 of Inl e \<Rightarrow> Inl e
      | Inr (ns, ts2) \<Rightarrow>
     (case CONSUME RightBrace ts2 of Inl e \<Rightarrow> Inl e
      | Inr (_, ts3) \<Rightarrow> Inr (ns, ts3))))"
  by pat_completeness auto
termination
  apply (relation "inv_image (less_than <*lex*> less_than)
    (\<lambda>x. case x of
        Inl (Inl ts) \<Rightarrow> (length ts, 2::nat)
      | Inl (Inr (Inl (acc, ts))) \<Rightarrow> (length ts, 1)
      | Inl (Inr (Inr ts)) \<Rightarrow> (length ts, 0)
      | Inr (Inl (st, ts)) \<Rightarrow> (length ts, 2)
      | Inr (Inr (Inl (st, ts))) \<Rightarrow> (length ts, 1)
      | Inr (Inr (Inr ts)) \<Rightarrow> (length ts, 0))")
  apply (intro wf_inv_image wf_lex_prod wf_less_than)
  apply (auto dest!: CONSUME_progress OPTION_lineSpace_length node_head_length)
  done

declare nodes.simps [simp del] nodes_many.simps [simp del] node.simps [simp del]
  node_many.simps [simp del] node_entry.simps [simp del] nodeChildren.simps [simp del]

text \<open>Rule \<^verbatim>\<open>document\<close>, lines 86-91.\<close>

definition document :: "token list \<Rightarrow> Document result" where
  "document ts =
     (case (if LA1 ts = BOM then CONSUME BOM ts else Inr (LA ts, ts)) of Inl e \<Rightarrow> Inl e
      | Inr (_, ts1) \<Rightarrow>
     (case nodes ts1 of Inl e \<Rightarrow> Inl e
      | Inr (ns, ts2) \<Rightarrow>
     (case CONSUME EOF ts2 of Inl e \<Rightarrow> Inl e
      | Inr (_, ts3) \<Rightarrow> Inr (ns, ts3))))"

section \<open>The entry point\<close>

text \<open>
  A lexing error of the lexer library and the result of \<^verbatim>\<open>lexer.tokenize\<close> (line
  363). The lexer itself is the library's, configured with the patterns of
  \<^verbatim>\<open>tokens.js\<close>; \<open>parse\<close> takes it as the argument \<open>tokenize\<close>.
\<close>

record lexing_error =
  message :: string
  offset :: nat
  length' :: nat
  line :: nat
  column :: nat

record lexing_result =
  lex_tokens :: "token list"
  lex_errors :: "lexing_error list"

text \<open>
  \<^verbatim>\<open>text.slice(start, end)\<close> for \<open>start \<le> end\<close>, and
  \<^verbatim>\<open>image.split(/\r?\n/g)\<close>: a line ends at a line feed, or at a carriage return
  followed by a line feed.
\<close>

definition slice :: "string \<Rightarrow> nat \<Rightarrow> nat \<Rightarrow> string" where
  "slice text start end' = take (end' - start) (drop start text)"

fun split_lines :: "string \<Rightarrow> string list" where
  "split_lines [] = [[]]"
| "split_lines [c] = (if c = CHR 0x0A then [[], []] else [[c]])"
| "split_lines (c # d # cs) =
     (if c = CHR 0x0A then [] # split_lines (d # cs)
      else if c = CHR 0x0D \<and> d = CHR 0x0A then [] # split_lines cs
      else (case split_lines (d # cs) of [] \<Rightarrow> [[c]] | l # ls \<Rightarrow> (c # l) # ls))"

text \<open>\<^verbatim>\<open>transformLexerError\<close>, lines 319-339.\<close>

definition transformLexerError :: "lexing_error \<Rightarrow> token list \<Rightarrow> string \<Rightarrow> exception" where
  "transformLexerError error tokens text =
     (let end' = offset error + length' error;
          img = slice text (offset error) end';
          lines = split_lines img;
          prevToken = find (\<lambda>token. case endOffset token of None \<Rightarrow> False
                                     | Some e \<Rightarrow> e + 1 = offset error) tokens
      in MismatchedTokenException (message error)
           (createTokenInstance Unknown img (Some (offset error)) (Some end')
              (Some (line error)) (Some (line error + length lines - 1))
              (Some (column error)) (Some (column error + length (last lines))))
           prevToken)"

text \<open>
  Modelled from the spec: the rule wrapper of the parser instance (missing: the parsing
  library and \<^verbatim>\<open>base.js\<close>). The instance of line 346 is shared by all calls of
  \<^verbatim>\<open>parse\<close>; its state is the token vector and the list of errors. Assigning
  \<^verbatim>\<open>parser.input\<close> (line 372) resets the instance and stores the tokens. Sections
  4.2 and 7: there is no recovery, so the top rule invoked at line 373 returns its value,
  or, when a rule raised, records that exception and returns \<^verbatim>\<open>undefined\<close>.
\<close>

record parser_state =
  tokVector :: "token list"
  parser_errors :: "exception list"

definition set_input :: "token list \<Rightarrow> parser_state \<Rightarrow> parser_state" where
  "set_input newInput p = \<lparr>tokVector = newInput, parser_errors = []\<rparr>"

definition invoke_document :: "parser_state \<Rightarrow> Document option \<times> parser_state" where
  "invoke_document p =
     (case document (tokVector p) of
        Inl e \<Rightarrow> (None, p\<lparr>parser_errors := parser_errors p @ [e]\<rparr>)
      | Inr (d, _) \<Rightarrow> (Some d, p))"

text \<open>
  \<^verbatim>\<open>parse\<close>, lines 362-379: the result object and the state the shared parser
  instance is left in.
\<close>

record ParseResult =
  output' :: "Document option"
  errors :: "exception list"

definition parse ::
  "(string \<Rightarrow> lexing_result) \<Rightarrow> parser_state \<Rightarrow> string \<Rightarrow> ParseResult \<times> parser_state" where
  "parse tokenize p text =
     (let r = tokenize text in
      if lex_errors r \<noteq> [] then
        (\<lparr>output' = None,
          errors = map (\<lambda>error. transformLexerError error (lex_tokens r) text) (lex_errors r)\<rparr>,
         p)
      else
        (case invoke_document (set_input (lex_tokens r) p) of
           (out, p') \<Rightarrow> (\<lparr>output' = out, errors = parser_errors p'\<rparr>, p')))"

section \<open>Evaluation\<close>

text \<open>
  \<open>tk ty img off\<close> is the token of type \<open>ty\<close> and image \<open>img\<close> that starts at
  offset \<open>off\<close> of a text of one line, with the positions the lexer gives it (offsets
  from 0, lines and columns from 1, end positions inclusive).
\<close>

definition tk :: "tokenType \<Rightarrow> string \<Rightarrow> nat \<Rightarrow> token" where
  "tk ty img off =
     createTokenInstance ty img (Some off) (Some (off + length img - 1)) (Some 1) (Some 1)
       (Some (off + 1)) (Some (off + length img))"

section \<open>Inputs and invariants used below\<close>

text \<open>
  Each token list below stands for the text named with it, token by token; the comment
  marker of token type \<open>BlockComment\<close> is written \<^verbatim>\<open>/-\<close>.
\<close>

text \<open>
  The lexer's result for the text \<^verbatim>\<open>a [\<close>: an identifier, a space, and an error
  for the character \<^verbatim>\<open>[\<close>, which no pattern of the main mode matches.
\<close>

definition lexed_bracket :: lexing_result where
  "lexed_bracket =
     \<lparr>lex_tokens = [tk Identifier ''a'' 0, tk WhiteSpace '' '' 1],
      lex_errors = [\<lparr>message = ''unexpected character'', offset = 2, length' = 1, line = 1,
                     column = 3\<rparr>]\<rparr>"

text \<open>The lexer's result for the text \<^verbatim>\<open>foo =\<close>: three tokens and no error.\<close>

definition lexed_equals :: lexing_result where
  "lexed_equals =
     \<lparr>lex_tokens = [tk Identifier ''foo'' 0, tk WhiteSpace '' '' 3, tk Equals ''='' 4],
      lex_errors = []\<rparr>"

text \<open>The tokens of \<^verbatim>\<open>/-foo 1;bar\<close>.\<close>

definition ex_commented_node :: "token list" where
  "ex_commented_node =
     [tk BlockComment ''/-'' 0, tk Identifier ''foo'' 2, tk WhiteSpace '' '' 5,
      tk Integer ''1'' 6, tk SemiColon '';'' 7, tk Identifier ''bar'' 8]"

text \<open>
  The tokens of \<^verbatim>\<open>foo;bar\<close>, of \<^verbatim>\<open>foo=1\<close> and of \<^verbatim>\<open>foo}\<close>; and the locals
  of rule \<open>node\<close> after the name \<^verbatim>\<open>foo\<close> with no space behind it.
\<close>

definition ex_two_nodes :: "token list" where
  "ex_two_nodes = [tk Identifier ''foo'' 0, tk SemiColon '';'' 3, tk Identifier ''bar'' 4]"

definition ex_no_terminator :: "token list" where
  "ex_no_terminator = [tk Identifier ''foo'' 0, tk Equals ''='' 3, tk Integer ''1'' 4]"

definition ex_in_braces :: "token list" where
  "ex_in_braces = [tk Identifier ''foo'' 0, tk RightBrace ''}'' 3]"

definition only_foo :: node_locals where
  "only_foo = \<lparr>the_node = new_node None ''foo'', entriesEnded = False, childrenEnded = False,
                hasSpace = False\<rparr>"

text \<open>
  The locals of rule \<open>node\<close> after the name \<^verbatim>\<open>foo\<close> and a space: with entries and
  children still open, and with both closed.
\<close>

definition open_foo :: node_locals where
  "open_foo = \<lparr>the_node = new_node None ''foo'', entriesEnded = False, childrenEnded = False,
                hasSpace = True\<rparr>"

definition closed_foo :: node_locals where
  "closed_foo = \<lparr>the_node = new_node None ''foo'', entriesEnded = True, childrenEnded = True,
                  hasSpace = True\<rparr>"


text \<open>The tokens of \<^verbatim>\<open>node a=1 a=2\<close>.\<close>

definition ex_duplicate :: "token list" where
  "ex_duplicate =
     [tk Identifier ''node'' 0, tk WhiteSpace '' '' 4, tk Identifier ''a'' 5, tk Equals ''='' 6,
      tk Integer ''1'' 7, tk WhiteSpace '' '' 8, tk Identifier ''a'' 9, tk Equals ''='' 10,
      tk Integer ''2'' 11]"

text \<open>The tokens of \<^verbatim>\<open>node __proto__=1 __proto__=2\<close>.\<close>

definition ex_duplicate_proto :: "token list" where
  "ex_duplicate_proto =
     [tk Identifier ''node'' 0, tk WhiteSpace '' '' 4, tk Identifier ''__proto__'' 5,
      tk Equals ''='' 14, tk Integer ''1'' 15, tk WhiteSpace '' '' 16,
      tk Identifier ''__proto__'' 17, tk Equals ''='' 26, tk Integer ''2'' 27]"

text \<open>The tokens of \<^verbatim>\<open>foo {} {}\<close> and of \<^verbatim>\<open>foo {} /-{}\<close>.\<close>

definition ex_two_blocks :: "token list" where
  "ex_two_blocks =
     [tk Identifier ''foo'' 0, tk WhiteSpace '' '' 3, tk LeftBrace ''{'' 4, tk RightBrace ''}'' 5,
      tk WhiteSpace '' '' 6, tk LeftBrace ''{'' 7, tk RightBrace ''}'' 8]"

definition ex_commented_block :: "token list" where
  "ex_commented_block =
     [tk Identifier ''foo'' 0, tk WhiteSpace '' '' 3, tk LeftBrace ''{'' 4, tk RightBrace ''}'' 5,
      tk WhiteSpace '' '' 6, tk BlockComment ''/-'' 7, tk LeftBrace ''{'' 9,
      tk RightBrace ''}'' 10]"

text \<open>The tokens of \<^verbatim>\<open>/-1\<close>.\<close>

definition ex_commented_entry :: "token list" where
  "ex_commented_entry = [tk BlockComment ''/-'' 0, tk Integer ''1'' 2]"

text \<open>
  The invariant of a node and of every node below it: as many value tags as values, and
  every key of the property tags is a key of the properties. \<open>tags_plain\<close> says that
  the object of the property tags still has the prototype it started with.
\<close>

fun tags_aligned :: "Node \<Rightarrow> bool" where
  "tags_aligned (Node nm ps vs cs tg) =
     (length (tags_values tg) = length vs \<and>
      set (map fst (own (tags_properties tg))) \<subseteq> set (map fst (own ps)) \<and>
      list_all tags_aligned cs)"

definition tags_plain :: "Node \<Rightarrow> bool" where
  "tags_plain n = (prototype (tags_properties (tags n)) = ObjectPrototype)"

text \<open>The tokens of \<^verbatim>\<open>foo 1 k=(t)2 {bar null}\<close>.\<close>

definition ex_nested :: "token list" where
  "ex_nested =
     [tk Identifier ''foo'' 0, tk WhiteSpace '' '' 3, tk Integer ''1'' 4, tk WhiteSpace '' '' 5,
      tk Identifier ''k'' 6, tk Equals ''='' 7, tk LeftParenthesis ''('' 8, tk Identifier ''t'' 9,
      tk RightParenthesis '')'' 10, tk Integer ''2'' 11, tk WhiteSpace '' '' 12,
      tk LeftBrace ''{'' 13, tk Identifier ''bar'' 14, tk WhiteSpace '' '' 17,
      tk Null ''null'' 18, tk RightBrace ''}'' 22]"

lemmas kdl_eval =
  tk_def createTokenInstance_def END_OF_FILE_def LA_def LA1_def CONSUME_def
  FIRST_nodeSpace_def FIRST_lineComment_def FIRST_string_def FIRST_tag_def
  FIRST_nonStringValue_def FIRST_lineSpace_def FIRST_propertyOrArgument_def FIRST_node_def
  FIRST_node_entry_def nodeEndTokens_def
  nodeSpace_many.simps nodeSpace_def OPTION_nodeSpace_def lineComment_def string_def tag_def
  digit_value_def digits_value_def unsigned_value_def parseInteger_def
  nonStringValue_def value'_def
  lineSpace_alt_def lineSpace_many.simps lineSpace_def OPTION_lineSpace_def nodeTerminator_def
  OPTION_tag_def propertyOrArgument_def plain_object_def assign_def new_node_def add_entry_def
  set_children_def
  node_head_def nodes.simps nodes_many.simps node.simps node_many.simps node_entry.simps
  nodeChildren.simps document_def

section \<open>Every rule consumes input\<close>

text \<open>
  A recursive rule that succeeds gives back no more input than it got, and a node, a
  node entry and a children block consume at least one token. So the progress check of
  a repetition never stops one of the two repetitions of this grammar.
\<close>

lemma nodes_length: "nodes ts = Inr (d, r) \<Longrightarrow> length r \<le> length ts"
  and nodes_many_length: "nodes_many acc ts = Inr (d, r) \<Longrightarrow> length r \<le> length ts"
  and node_length: "node ts = Inr (n, r) \<Longrightarrow> length r < length ts"
  and node_many_length: "node_many st ts = Inr (st', r) \<Longrightarrow> length r \<le> length ts"
  and node_entry_length: "node_entry st ts = Inr (st', r) \<Longrightarrow> length r < length ts"
  and nodeChildren_length: "nodeChildren ts = Inr (cs, r) \<Longrightarrow> length r < length ts"
proof (induction ts and acc ts and ts and st ts and st ts and ts
    arbitrary: d r and d r and n r and st' r and st' r and cs r
    rule: nodes_nodes_many_node_node_many_node_entry_nodeChildren.induct)
  case (1 ts)
  then show ?case by (simp add: nodes.simps)
next
  case (2 acc ts)
  from "2.prems" show ?case
    apply (subst (asm) nodes_many.simps)
    apply (simp split: if_splits sum.splits prod.splits)
    using "2.IH"
    apply (fastforce dest: CONSUME_length_le OPTION_lineSpace_length lineSpace_length)+
    done
next
  case (3 ts)
  from "3.prems" show ?case
    apply (subst (asm) node.simps)
    apply (simp split: if_splits sum.splits prod.splits)
    using "3.IH"
    apply (fastforce dest: node_head_length nodeTerminator_length)+
    done
next
  case (4 st ts)
  from "4.prems" show ?case
    apply (subst (asm) node_many.simps)
    apply (simp split: if_splits sum.splits prod.splits)
    using "4.IH"
    apply (fastforce)+
    done
next
  case (5 st ts)
  from "5.prems" show ?case
    apply (subst (asm) node_entry.simps)
    apply (simp split: if_splits sum.splits prod.splits)
    using "5.IH"
    apply (fastforce dest: propertyOrArgument_length CONSUME_progress OPTION_lineSpace_length
        OPTION_nodeSpace_length)+
    done
next
  case (6 ts)
  from "6.prems" show ?case
    apply (subst (asm) nodeChildren.simps)
    apply (simp split: if_splits sum.splits prod.splits)
    using "6.IH"
    apply (fastforce dest: CONSUME_progress CONSUME_length_le)+
    done
qed

section \<open>Lexer errors and grammar errors\<close>

text \<open>
  C1. When the lexer reports at least one error, \<open>parse\<close> returns no document and the
  list of all lexer errors, each translated by \<open>transformLexerError\<close>, in their order.
  The grammar engine is not run: the shared parser instance is left in the state it was
  in, its input is not even assigned.
\<close>

theorem parse_lexer_errors:
  "lex_errors (tokenize text) \<noteq> [] \<Longrightarrow>
   parse tokenize p text =
     (\<lparr>output' = None,
       errors = map (\<lambda>error. transformLexerError error (lex_tokens (tokenize text)) text)
                  (lex_errors (tokenize text))\<rparr>, p)"
  by (simp add: parse_def Let_def)

theorem parse_lexer_errors_witness:
  "lex_errors lexed_bracket \<noteq> [] \<and>
   parse (\<lambda>_. lexed_bracket) \<lparr>tokVector = [], parser_errors = []\<rparr> ''a ['' =
     (\<lparr>output' = None,
       errors = [MismatchedTokenException ''unexpected character''
                   (createTokenInstance Unknown ''['' (Some 2) (Some 3) (Some 1) (Some 1)
                      (Some 3) (Some 4))
                   (Some (tk WhiteSpace '' '' 1))]\<rparr>,
      \<lparr>tokVector = [], parser_errors = []\<rparr>)"
  using parse_lexer_errors
    [of "\<lambda>_. lexed_bracket" "''a [''" "\<lparr>tokVector = [], parser_errors = []\<rparr>"]
  by (simp add: lexed_bracket_def transformLexerError_def slice_def tk_def
      createTokenInstance_def)

lemma document_equals:
  "document (lex_tokens lexed_equals) = Inl (NoViableAltException (tk Equals ''='' 4))"
  by (simp add: lexed_equals_def kdl_eval)

text \<open>
  C2. When the text lexes without error, \<open>parse\<close> returns either the complete document
  that rule \<open>document\<close> returned, with no diagnostics, or, when the grammar raised, no
  document and the one exception that ended the parse. So a text that fails the grammar
  gets an absent document and a non-empty list of diagnostics, and never a partial tree.
\<close>

theorem parse_grammar_error:
  "lex_errors (tokenize text) = [] \<Longrightarrow>
   fst (parse tokenize p text) =
     (case document (lex_tokens (tokenize text)) of
        Inl e \<Rightarrow> \<lparr>output' = None, errors = [e]\<rparr>
      | Inr (d, _) \<Rightarrow> \<lparr>output' = Some d, errors = []\<rparr>)"
  by (simp add: parse_def Let_def invoke_document_def set_input_def
      split: sum.splits prod.splits)

theorem parse_grammar_error_witness:
  "lex_errors lexed_equals = [] \<and>
   fst (parse (\<lambda>_. lexed_equals) \<lparr>tokVector = [], parser_errors = []\<rparr> ''foo ='') =
     \<lparr>output' = None, errors = [NoViableAltException (tk Equals ''='' 4)]\<rparr>"
  using parse_grammar_error
    [of "\<lambda>_. lexed_equals" "''foo =''" "\<lparr>tokVector = [], parser_errors = []\<rparr>"]
  by (simp add: document_equals) (simp add: lexed_equals_def)

section \<open>Commented-out nodes\<close>

lemma LA1_CONSUME: "LA1 ts = ty \<Longrightarrow> CONSUME ty ts = Inr (LA ts, drop 1 ts)"
  by (simp add: CONSUME_def)

text \<open>
  C6. In a node list, a block-comment token, optional line space and a node that parses
  are skipped together: the repetition goes on behind the node with the nodes collected
  so far, so the node list is the one parsed from the input behind the commented-out
  node. The node adds nothing to the list and raises nothing.
\<close>

theorem commented_node_discarded:
  assumes "LA1 ts = BlockComment"
    and "OPTION_lineSpace (drop 1 ts) = Inr (u, ts2)"
    and "node ts2 = Inr (n, ts3)"
  shows "nodes_many acc ts = nodes_many acc ts3 \<and> nodes ts = nodes ts3"
proof -
  have "length ts2 \<le> length (drop 1 ts)"
    using assms(2) by (rule OPTION_lineSpace_length)
  moreover have "length ts3 < length ts2"
    using assms(3) by (rule node_length)
  ultimately have "length ts3 < length ts" by simp
  then have "nodes_many a ts = nodes_many a ts3" for a
    using assms by (subst nodes_many.simps) (simp add: LA1_CONSUME)
  then show ?thesis by (simp add: nodes.simps)
qed

theorem commented_node_discarded_witness:
  "LA1 ex_commented_node = BlockComment \<and>
   OPTION_lineSpace (drop 1 ex_commented_node) = Inr ((), drop 1 ex_commented_node) \<and>
   node (drop 1 ex_commented_node) =
     Inr (Node ''foo'' (plain_object []) [IntegerValue 1] []
            \<lparr>tags_name = None, tags_properties = plain_object [],
               tags_values = [None]\<rparr>,
          [tk Identifier ''bar'' 8]) \<and>
   nodes ex_commented_node = nodes [tk Identifier ''bar'' 8] \<and>
   nodes ex_commented_node =
     Inr ([Node ''bar'' (plain_object []) [] []
             \<lparr>tags_name = None, tags_properties = plain_object [], tags_values = []\<rparr>],
          [])"
proof -
  have 1: "LA1 ex_commented_node = BlockComment"
    by (simp add: ex_commented_node_def kdl_eval)
  have 2: "OPTION_lineSpace (drop 1 ex_commented_node) = Inr ((), drop 1 ex_commented_node)"
    by (simp add: ex_commented_node_def kdl_eval)
  have 3: "node (drop 1 ex_commented_node) =
     Inr (Node ''foo'' (plain_object []) [IntegerValue 1] []
            \<lparr>tags_name = None, tags_properties = plain_object [],
               tags_values = [None]\<rparr>,
          [tk Identifier ''bar'' 8])"
    by (simp add: ex_commented_node_def kdl_eval)
  have 4: "nodes [tk Identifier ''bar'' 8] =
     Inr ([Node ''bar'' (plain_object []) [] []
             \<lparr>tags_name = None, tags_properties = plain_object [], tags_values = []\<rparr>],
          [])"
    by (simp add: kdl_eval)
  from commented_node_discarded [OF 1 2 3] 1 2 3 4 show ?thesis by simp
qed

section \<open>The end of a node\<close>

text \<open>
  C9. When the entry loop of a node has ended, a closing brace as the next token ends
  the node with nothing consumed. Any other next token must start a terminator: the node
  consumes a line comment, or the one newline, semicolon or end-of-input token, and
  raises a no-viable-alternative exception on every other token.
\<close>

theorem node_terminator_mandatory:
  assumes "node_head ts = Inr (st, ts1)"
    and "node_many st ts1 = Inr (st', ts2)"
  shows "node ts =
     (if LA1 ts2 = RightBrace then Inr (the_node st', ts2)
      else if LA1 ts2 = LineComment then
        (case lineComment ts2 of Inl e \<Rightarrow> Inl e | Inr (_, ts3) \<Rightarrow> Inr (the_node st', ts3))
      else if LA1 ts2 = NewLine \<or> LA1 ts2 = SemiColon \<or> LA1 ts2 = EOF then
        Inr (the_node st', drop 1 ts2)
      else Inl (NoViableAltException (LA ts2)))"
  using assms
  by (subst node.simps)
     (simp add: nodeTerminator_def FIRST_lineComment_def LA1_CONSUME)

theorem node_terminator_mandatory_witness:
  "node_head ex_two_nodes = Inr (only_foo, drop 1 ex_two_nodes) \<and>
   node_many only_foo (drop 1 ex_two_nodes) = Inr (only_foo, drop 1 ex_two_nodes) \<and>
   node ex_two_nodes = Inr (new_node None ''foo'', [tk Identifier ''bar'' 4]) \<and>
   node ex_no_terminator = Inl (NoViableAltException (tk Equals ''='' 3)) \<and>
   node ex_in_braces = Inr (new_node None ''foo'', [tk RightBrace ''}'' 3])"
proof -
  have 1: "node_head ex_two_nodes = Inr (only_foo, drop 1 ex_two_nodes)"
    by (simp add: ex_two_nodes_def only_foo_def kdl_eval)
  have 2: "node_many only_foo (drop 1 ex_two_nodes) = Inr (only_foo, drop 1 ex_two_nodes)"
    by (simp add: ex_two_nodes_def only_foo_def kdl_eval)
  have 3: "node_head ex_no_terminator = Inr (only_foo, drop 1 ex_no_terminator)"
    by (simp add: ex_no_terminator_def only_foo_def kdl_eval)
  have 4: "node_many only_foo (drop 1 ex_no_terminator) = Inr (only_foo, drop 1 ex_no_terminator)"
    by (simp add: ex_no_terminator_def only_foo_def kdl_eval)
  have 5: "node_head ex_in_braces = Inr (only_foo, drop 1 ex_in_braces)"
    by (simp add: ex_in_braces_def only_foo_def kdl_eval)
  have 6: "node_many only_foo (drop 1 ex_in_braces) = Inr (only_foo, drop 1 ex_in_braces)"
    by (simp add: ex_in_braces_def only_foo_def kdl_eval)
  have a: "node ex_two_nodes = Inr (new_node None ''foo'', [tk Identifier ''bar'' 4])"
    using node_terminator_mandatory [OF 1 2]
    by (simp add: ex_two_nodes_def only_foo_def LA1_Cons tk_def createTokenInstance_def)
  have b: "node ex_no_terminator = Inl (NoViableAltException (tk Equals ''='' 3))"
    using node_terminator_mandatory [OF 3 4]
    by (simp add: ex_no_terminator_def only_foo_def LA1_Cons LA_def tk_def
        createTokenInstance_def)
  have c: "node ex_in_braces = Inr (new_node None ''foo'', [tk RightBrace ''}'' 3])"
    using node_terminator_mandatory [OF 5 6]
    by (simp add: ex_in_braces_def only_foo_def LA1_Cons tk_def createTokenInstance_def)
  from 1 2 a b c show ?thesis by simp
qed

section \<open>The entries of a node\<close>



lemma add_entry_binds_key:
  "k \<noteq> ''__proto__'' \<Longrightarrow>
   map_of (own (properties (add_entry (Some k, v, tg, sp) n))) k = Some v \<and>
   map_of (own (tags_properties (tags (add_entry (Some k, v, tg, sp) n)))) k = Some tg"
  by (simp add: add_entry_def assign_def update_conv')

lemma add_entry_proto_key:
  "v \<noteq> NullValue \<Longrightarrow>
   add_entry (Some ''__proto__'', v, tg, sp) (new_node t nm) = new_node t nm"
  by (simp add: add_entry_def assign_def new_node_def plain_object_def)

text \<open>
  C3. For the key \<^verbatim>\<open>__proto__\<close> the code does not do what the claim says. Parsing
  \<^verbatim>\<open>node a=1 a=2\<close> gives one node whose property \<^verbatim>\<open>a\<close> is 2 and carries the
  (absent) tag of the second occurrence: the last occurrence wins. Parsing
  \<^verbatim>\<open>node __proto__=1 __proto__=2\<close> gives a node with no property and no property tag:
  the assignments of lines 157-158 go to the accessor \<^verbatim>\<open>__proto__\<close> that the two
  plain objects inherit, which ignores the numbers and the absent tag, so no occurrence
  of this key is stored.
\<close>

theorem duplicate_property_proto_key:
  "document ex_duplicate =
     Inr ([Node ''node'' (plain_object [(''a'', IntegerValue 2)]) [] []
             \<lparr>tags_name = None, tags_properties = plain_object [(''a'', None)],
                tags_values = []\<rparr>], []) \<and>
   document ex_duplicate_proto =
     Inr ([Node ''node'' (plain_object []) [] []
             \<lparr>tags_name = None, tags_properties = plain_object [], tags_values = []\<rparr>], [])"
  by (simp add: ex_duplicate_def ex_duplicate_proto_def kdl_eval)

section \<open>The children block\<close>

lemma node_entry_closed:
  assumes "entriesEnded st" "childrenEnded st" "node_entry st ts = Inr (st', r)"
  shows "the_node st' = the_node st \<and> entriesEnded st' \<and> childrenEnded st'"
  using assms
  by (subst (asm) node_entry.simps) (auto split: if_splits sum.splits)

lemma node_many_closed:
  "entriesEnded st \<Longrightarrow> childrenEnded st \<Longrightarrow> node_many st ts = Inr (st', r) \<Longrightarrow>
   the_node st' = the_node st \<and> entriesEnded st' \<and> childrenEnded st'"
proof (induction "length ts" arbitrary: st ts rule: less_induct)
  case less
  show ?case
  proof (cases "hasSpace st \<and> LA1 ts \<notin> nodeEndTokens \<and> LA1 ts \<in> FIRST_node_entry")
    case False
    with less.prems show ?thesis by (subst (asm) node_many.simps) auto
  next
    case True
    with less.prems(3) obtain st1 ts1 where
      step: "node_entry st ts = Inr (st1, ts1)" and
      rest: "(if length ts1 < length ts then node_many st1 ts1 else Inr (st1, ts1)) =
        Inr (st', r)"
      by (subst (asm) node_many.simps) (auto split: sum.splits)
    from node_entry_closed [OF less.prems(1,2) step]
    have st1: "the_node st1 = the_node st" "entriesEnded st1" "childrenEnded st1" by simp_all
    show ?thesis
    proof (cases "length ts1 < length ts")
      case True
      with rest have "node_many st1 ts1 = Inr (st', r)" by simp
      from less.hyps [OF True st1(2,3) this] st1(1) show ?thesis by simp
    next
      case False
      with rest st1 show ?thesis by simp
    qed
  qed
qed

text \<open>
  C4. A children block that the entry loop consumes sets both flags, entries closed and
  children closed. With both flags set, an entry or a children block that is not
  commented out raises a no-viable-alternative exception, and whatever the loop still
  accepts leaves the node and both flags as they are. Parsing \<^verbatim>\<open>foo {} {}\<close> raises at
  the second opening brace.
\<close>

theorem children_block_closes_node:
  "(\<not> childrenEnded st \<longrightarrow> LA1 ts = LeftBrace \<longrightarrow> node_entry st ts = Inr (st', r) \<longrightarrow>
      entriesEnded st' \<and> childrenEnded st') \<and>
   (entriesEnded st \<longrightarrow> childrenEnded st \<longrightarrow> LA1 ts \<noteq> BlockComment \<longrightarrow>
      node_entry st ts = Inl (NoViableAltException (LA ts))) \<and>
   (entriesEnded st \<longrightarrow> childrenEnded st \<longrightarrow> node_many st ts = Inr (st', r) \<longrightarrow>
      the_node st' = the_node st \<and> entriesEnded st' \<and> childrenEnded st') \<and>
   document ex_two_blocks = Inl (NoViableAltException (tk LeftBrace ''{'' 7))"
proof -
  have a: "entriesEnded st' \<and> childrenEnded st'"
    if "\<not> childrenEnded st" "LA1 ts = LeftBrace" "node_entry st ts = Inr (st', r)"
    using that
    by (subst (asm) node_entry.simps)
       (auto simp: FIRST_propertyOrArgument_def FIRST_tag_def FIRST_nonStringValue_def
          FIRST_string_def split: if_splits sum.splits)
  have b: "node_entry st ts = Inl (NoViableAltException (LA ts))"
    if "entriesEnded st" "childrenEnded st" "LA1 ts \<noteq> BlockComment"
    using that by (subst node_entry.simps) simp
  have c: "document ex_two_blocks = Inl (NoViableAltException (tk LeftBrace ''{'' 7))"
    by (simp add: ex_two_blocks_def kdl_eval)
  from a b c node_many_closed [of st ts st' r] show ?thesis by blast
qed

theorem children_block_closes_node_witness:
  "\<not> childrenEnded open_foo \<and> LA1 (drop 2 ex_two_blocks) = LeftBrace \<and>
   node_entry open_foo (drop 2 ex_two_blocks) = Inr (closed_foo, drop 5 ex_two_blocks) \<and>
   entriesEnded closed_foo \<and> childrenEnded closed_foo \<and>
   LA1 (drop 5 ex_two_blocks) \<noteq> BlockComment \<and>
   node_entry closed_foo (drop 5 ex_two_blocks) =
     Inl (NoViableAltException (tk LeftBrace ''{'' 7)) \<and>
   node_many closed_foo (drop 5 ex_commented_block) =
     Inr (closed_foo\<lparr>hasSpace := False\<rparr>, []) \<and>
   the_node (closed_foo\<lparr>hasSpace := False\<rparr>) = the_node closed_foo"
proof -
  have 1: "\<not> childrenEnded open_foo" by (simp add: open_foo_def)
  have 2: "LA1 (drop 2 ex_two_blocks) = LeftBrace" by (simp add: ex_two_blocks_def kdl_eval)
  have 3: "node_entry open_foo (drop 2 ex_two_blocks) = Inr (closed_foo, drop 5 ex_two_blocks)"
    by (simp add: ex_two_blocks_def open_foo_def closed_foo_def kdl_eval)
  have 4: "entriesEnded closed_foo" "childrenEnded closed_foo" by (simp_all add: closed_foo_def)
  have 5: "LA1 (drop 5 ex_two_blocks) \<noteq> BlockComment" by (simp add: ex_two_blocks_def kdl_eval)
  have 6: "node_many closed_foo (drop 5 ex_commented_block) =
      Inr (closed_foo\<lparr>hasSpace := False\<rparr>, [])"
    by (simp add: ex_commented_block_def closed_foo_def kdl_eval)
  have 7: "LA (drop 5 ex_two_blocks) = tk LeftBrace ''{'' 7"
    by (simp add: ex_two_blocks_def LA_def)
  from children_block_closes_node
      [of open_foo "drop 2 ex_two_blocks" closed_foo "drop 5 ex_two_blocks"]
    children_block_closes_node
      [of closed_foo "drop 5 ex_two_blocks" closed_foo "[]"]
    children_block_closes_node
      [of closed_foo "drop 5 ex_commented_block" "closed_foo\<lparr>hasSpace := False\<rparr>" "[]"]
    1 2 3 4 5 6 7
  show ?thesis by simp
qed

text \<open>
  C5, as the claim states it, fails on the code. The claim lets a commented-out children
  block pass only while the node's children block has not been consumed. Here the
  children block has been consumed (both flags are set), and the entry loop accepts the
  commented-out children block all the same; \<^verbatim>\<open>foo {} /-{}\<close> parses to the node
  \<^verbatim>\<open>foo\<close>.
\<close>

theorem commented_block_after_children:
  "childrenEnded closed_foo \<and>
   node_entry closed_foo (drop 5 ex_commented_block) =
     Inr (closed_foo\<lparr>hasSpace := False\<rparr>, []) \<and>
   document ex_commented_block =
     Inr ([Node ''foo'' (plain_object []) [] []
             \<lparr>tags_name = None, tags_properties = plain_object [], tags_values = []\<rparr>],
          [])"
  by (simp add: ex_commented_block_def closed_foo_def kdl_eval)

text \<open>
  C5, amended. Inside a node, behind a block comment and optional line space, a
  discarded entry is accepted only while entries are open: with entries closed it raises
  a no-viable-alternative exception. A discarded children block is accepted whatever the
  two flags are, also after the node's children block has been consumed; it closes the
  entries and leaves the children flag and the node as they are.
\<close>

theorem commented_entry_gating:
  assumes "LA1 ts = BlockComment"
    and "OPTION_lineSpace (drop 1 ts) = Inr (u, ts2)"
  shows "node_entry st ts =
     (if LA1 ts2 \<in> FIRST_propertyOrArgument then
        (if entriesEnded st then Inl (NoViableAltException (LA ts2))
         else (case propertyOrArgument ts2 of Inl e \<Rightarrow> Inl e
               | Inr (p, r) \<Rightarrow> Inr (st\<lparr>hasSpace := snd (snd (snd p))\<rparr>, r)))
      else if LA1 ts2 = LeftBrace then
        (case nodeChildren ts2 of Inl e \<Rightarrow> Inl e
         | Inr (_, ts3) \<Rightarrow>
        (case OPTION_nodeSpace ts3 of Inl e \<Rightarrow> Inl e
         | Inr (sp, r) \<Rightarrow> Inr (st\<lparr>entriesEnded := True, hasSpace := sp\<rparr>, r)))
      else Inl (NoViableAltException (LA ts2)))"
proof -
  have "LA1 ts \<notin> FIRST_propertyOrArgument" "LA1 ts \<noteq> LeftBrace"
    using assms(1)
    by (simp_all add: FIRST_propertyOrArgument_def FIRST_tag_def FIRST_nonStringValue_def
        FIRST_string_def)
  moreover have "LeftBrace \<notin> FIRST_propertyOrArgument"
    by (simp add: FIRST_propertyOrArgument_def FIRST_tag_def FIRST_nonStringValue_def
        FIRST_string_def)
  ultimately show ?thesis
    using assms by (subst node_entry.simps) (auto simp: LA1_CONSUME)
qed

theorem commented_entry_gating_witness:
  "LA1 ex_commented_entry = BlockComment \<and>
   OPTION_lineSpace (drop 1 ex_commented_entry) = Inr ((), [tk Integer ''1'' 2]) \<and>
   node_entry closed_foo ex_commented_entry = Inl (NoViableAltException (tk Integer ''1'' 2)) \<and>
   node_entry open_foo ex_commented_entry = Inr (open_foo\<lparr>hasSpace := False\<rparr>, []) \<and>
   LA1 (drop 5 ex_commented_block) = BlockComment \<and>
   OPTION_lineSpace (drop 6 ex_commented_block) = Inr ((), drop 6 ex_commented_block) \<and>
   node_entry closed_foo (drop 5 ex_commented_block) =
     Inr (closed_foo\<lparr>entriesEnded := True, hasSpace := False\<rparr>, []) \<and>
   node_entry open_foo (drop 5 ex_commented_block) =
     Inr (open_foo\<lparr>entriesEnded := True, hasSpace := False\<rparr>, [])"
proof -
  have 1: "LA1 ex_commented_entry = BlockComment"
    by (simp add: ex_commented_entry_def kdl_eval)
  have 2: "OPTION_lineSpace (drop 1 ex_commented_entry) = Inr ((), [tk Integer ''1'' 2])"
    by (simp add: ex_commented_entry_def kdl_eval)
  have 3: "LA1 (drop 5 ex_commented_block) = BlockComment"
    by (simp add: ex_commented_block_def kdl_eval)
  have 4: "OPTION_lineSpace (drop 1 (drop 5 ex_commented_block)) =
      Inr ((), drop 6 ex_commented_block)"
    by (simp add: ex_commented_block_def kdl_eval)
  have 5: "LA1 [tk Integer ''1'' 2] \<in> FIRST_propertyOrArgument"
    "LA [tk Integer ''1'' 2] = tk Integer ''1'' 2"
    "propertyOrArgument [tk Integer ''1'' 2] = Inr ((None, IntegerValue 1, None, False), [])"
    by (simp_all add: kdl_eval)
  have 6: "LA1 (drop 6 ex_commented_block) \<notin> FIRST_propertyOrArgument"
    "LA1 (drop 6 ex_commented_block) = LeftBrace"
    "nodeChildren (drop 6 ex_commented_block) = Inr ([], [])"
    "OPTION_nodeSpace [] = Inr (False, [])"
    by (simp_all add: ex_commented_block_def kdl_eval)
  have 7: "entriesEnded closed_foo" "\<not> entriesEnded open_foo"
    by (simp_all add: closed_foo_def open_foo_def)
  from commented_entry_gating [OF 1 2, of closed_foo]
    commented_entry_gating [OF 1 2, of open_foo]
    commented_entry_gating [OF 3 4, of closed_foo]
    commented_entry_gating [OF 3 4, of open_foo]
    1 2 3 4 5 6 7
  show ?thesis by simp
qed

section \<open>Tags stay aligned\<close>

lemma tags_aligned_iff:
  "tags_aligned n \<longleftrightarrow>
     length (tags_values (tags n)) = length (values' n) \<and>
     set (map fst (own (tags_properties (tags n)))) \<subseteq> set (map fst (own (properties n))) \<and>
     list_all tags_aligned (children n)"
  by (cases n) simp

lemma tags_aligned_new_node: "tags_aligned (new_node tg nm) \<and> tags_plain (new_node tg nm)"
  by (simp add: new_node_def plain_object_def tags_plain_def)

lemma tags_plain_add_entry: "tags_plain n \<Longrightarrow> tags_plain (add_entry p n)"
  by (cases p; cases "fst p") (auto simp: tags_plain_def add_entry_def assign_def)

lemma tags_aligned_add_entry:
  "tags_aligned n \<Longrightarrow> tags_plain n \<Longrightarrow> tags_aligned (add_entry p n)"
  by (cases p; cases "fst p")
     (auto simp: tags_aligned_iff tags_plain_def add_entry_def assign_def dom_update image_iff)

lemma tags_aligned_set_children:
  "tags_aligned n \<Longrightarrow> list_all tags_aligned cs \<Longrightarrow> tags_aligned (set_children cs n)"
  by (simp add: tags_aligned_iff set_children_def)

lemma tags_plain_set_children: "tags_plain n \<Longrightarrow> tags_plain (set_children cs n)"
  by (simp add: tags_plain_def set_children_def)

lemma node_head_aligned:
  "node_head ts = Inr (st, r) \<Longrightarrow> tags_aligned (the_node st) \<and> tags_plain (the_node st)"
  by (auto simp: node_head_def tags_aligned_new_node split: sum.splits)

lemma nodes_aligned: "nodes ts = Inr (d, r) \<Longrightarrow> list_all tags_aligned d"
  and nodes_many_aligned:
    "nodes_many acc ts = Inr (d, r) \<Longrightarrow> list_all tags_aligned acc \<Longrightarrow>
     list_all tags_aligned d"
  and node_aligned: "node ts = Inr (n, r) \<Longrightarrow> tags_aligned n"
  and node_many_aligned:
    "node_many st ts = Inr (st', r) \<Longrightarrow>
     tags_aligned (the_node st) \<and> tags_plain (the_node st) \<Longrightarrow>
     tags_aligned (the_node st') \<and> tags_plain (the_node st')"
  and node_entry_aligned:
    "node_entry st ts = Inr (st', r) \<Longrightarrow>
     tags_aligned (the_node st) \<and> tags_plain (the_node st) \<Longrightarrow>
     tags_aligned (the_node st') \<and> tags_plain (the_node st')"
  and nodeChildren_aligned: "nodeChildren ts = Inr (cs, r) \<Longrightarrow> list_all tags_aligned cs"
proof (induction ts and acc ts and ts and st ts and st ts and ts
    arbitrary: d r and d r and n r and st' r and st' r and cs r
    rule: nodes_nodes_many_node_node_many_node_entry_nodeChildren.induct)
  case (1 ts)
  then show ?case by (simp add: nodes.simps)
next
  case (2 acc ts)
  from "2.prems" show ?case
    apply (subst (asm) nodes_many.simps)
    apply (simp split: if_splits sum.splits prod.splits)
    using "2.IH"
    apply (fastforce)+
    done
next
  case (3 ts)
  from "3.prems" show ?case
    apply (subst (asm) node.simps)
    apply (simp split: if_splits sum.splits prod.splits)
    using "3.IH" node_head_aligned
    apply (fastforce)+
    done
next
  case (4 st ts)
  from "4.prems" show ?case
    apply (subst (asm) node_many.simps)
    apply (simp split: if_splits sum.splits prod.splits)
    using "4.IH"
    apply (fastforce)+
    done
next
  case (5 st ts)
  from "5.prems" show ?case
    apply (subst (asm) node_entry.simps)
    apply (simp split: if_splits sum.splits prod.splits)
    using "5.IH" tags_aligned_add_entry tags_aligned_set_children tags_plain_add_entry
      tags_plain_set_children
    apply (fastforce)+
    done
next
  case (6 ts)
  from "6.prems" show ?case
    apply (subst (asm) nodeChildren.simps)
    apply (simp split: if_splits sum.splits prod.splits)
    using "6.IH"
    apply (fastforce)+
    done
qed

text \<open>
  C8. In every node of a document that parsed, at every depth, the list of value tags is
  as long as the list of values, and every key of the property tags is a key of the
  properties.
\<close>

theorem document_tags_aligned:
  "document ts = Inr (d, r) \<Longrightarrow> list_all tags_aligned d"
proof -
  assume "document ts = Inr (d, r)"
  then obtain ts1 ts2 where "nodes ts1 = Inr (d, ts2)"
    by (auto simp: document_def split: if_splits sum.splits)
  then show ?thesis by (rule nodes_aligned)
qed

theorem document_tags_aligned_witness:
  "document ex_nested =
     Inr ([Node ''foo'' (plain_object [(''k'', IntegerValue 2)]) [IntegerValue 1]
             [Node ''bar'' (plain_object []) [NullValue] []
                \<lparr>tags_name = None, tags_properties = plain_object [],
                   tags_values = [None]\<rparr>]
             \<lparr>tags_name = None, tags_properties = plain_object [(''k'', Some ''t'')],
                tags_values = [None]\<rparr>],
          []) \<and>
   list_all tags_aligned
     [Node ''foo'' (plain_object [(''k'', IntegerValue 2)]) [IntegerValue 1]
        [Node ''bar'' (plain_object []) [NullValue] []
           \<lparr>tags_name = None, tags_properties = plain_object [],
              tags_values = [None]\<rparr>]
        \<lparr>tags_name = None, tags_properties = plain_object [(''k'', Some ''t'')],
           tags_values = [None]\<rparr>]"
proof -
  have 1: "document ex_nested =
     Inr ([Node ''foo'' (plain_object [(''k'', IntegerValue 2)]) [IntegerValue 1]
             [Node ''bar'' (plain_object []) [NullValue] []
                \<lparr>tags_name = None, tags_properties = plain_object [],
                   tags_values = [None]\<rparr>]
             \<lparr>tags_name = None, tags_properties = plain_object [(''k'', Some ''t'')],
                tags_values = [None]\<rparr>],
          [])"
    by (simp add: ex_nested_def kdl_eval)
  from document_tags_aligned [OF 1] 1 show ?thesis by simp
qed

end
